theory Spec2Isabelle
  imports Complex_Main
begin

section \<open>Data model of translator.py\<close>

text \<open>
  A landmark coordinate is the Python dictionary \<^verbatim>\<open>{"x": .., "y": .., "z": ..}\<close> built from
  a mediapipe landmark; \<^verbatim>\<open>c.get("x")\<close> is the field \<open>coord_x c\<close>. Python floats are modelled
  as mathematical reals: the normalised coordinates are finite numbers, and rounding of
  the float operations is not part of the model.
\<close>

record coord =
  coord_x :: real
  coord_y :: real
  coord_z :: real

text \<open>The dictionary returned by \<^verbatim>\<open>get_hand_coords\<close>, with its six keys.\<close>

record hand_coords =
  index :: coord
  middle :: coord
  ring :: coord
  pinkie :: coord
  thumb :: coord
  palm :: coord

text \<open>The four configuration attributes of \<^verbatim>\<open>Translator\<close> set by \<^verbatim>\<open>__init__\<close>.\<close>

record translator =
  distance_threshold :: real
  shake_sensitivity :: real
  mouse_sensitivity :: real
  scroll_sensitivity :: real

text \<open>The only exception the translation code can raise on a list of coordinates.\<close>

datatype error = IndexError

text \<open>Calls made to the \<^verbatim>\<open>keyboard\<close> and \<^verbatim>\<open>mouse\<close> libraries, in the order they happen.\<close>

datatype keyboard_action = Press string | Send string | Release string

datatype mouse_action = Click | Right_click | Wheel int | Move real real

section \<open>Helpers\<close>

text \<open>Sequencing of fallible steps: the first exception ends the evaluation.\<close>

definition and_then :: "error + 'a \<Rightarrow> ('a \<Rightarrow> error + 'b) \<Rightarrow> error + 'b" where
  "and_then r f = (case r of Inl e \<Rightarrow> Inl e | Inr v \<Rightarrow> f v)"

text \<open>\<^verbatim>\<open>coords[i]\<close> for a literal index \<open>i \<ge> 0\<close>: IndexError outside the list.\<close>

definition item :: "'a list \<Rightarrow> nat \<Rightarrow> error + 'a" where
  "item coords i = (if i < length coords then Inr (coords ! i) else Inl IndexError)"

text \<open>Python's \<^verbatim>\<open>a and b\<close> on fallible booleans: \<open>b\<close> is evaluated only when \<open>a\<close> is true.\<close>

definition py_and :: "error + bool \<Rightarrow> error + bool \<Rightarrow> error + bool" where
  "py_and a b = and_then a (\<lambda>v. if v then b else Inr False)"

text \<open>Python's \<^verbatim>\<open>int(r)\<close> on a float: truncation towards zero.\<close>

definition py_int :: "real \<Rightarrow> int" where
  "py_int r = (if 0 \<le> r then \<lfloor>r\<rfloor> else \<lceil>r\<rceil>)"

section \<open>Module-level functions\<close>

definition get_3d_distance :: "coord \<Rightarrow> coord \<Rightarrow> real" where
  "get_3d_distance coord1 coord2 =
     sqrt ((coord_x coord1 - coord_x coord2)\<^sup>2 +
           (coord_y coord1 - coord_y coord2)\<^sup>2 +
           (coord_z coord1 - coord_z coord2)\<^sup>2)"

text \<open>The dictionary display evaluates its values in the order written in the source.\<close>

definition get_hand_coords :: "coord list \<Rightarrow> error + hand_coords" where
  "get_hand_coords coords =
     and_then (item coords 8) (\<lambda>c8.
     and_then (item coords 12) (\<lambda>c12.
     and_then (item coords 16) (\<lambda>c16.
     and_then (item coords 20) (\<lambda>c20.
     and_then (item coords 4) (\<lambda>c4.
     and_then (item coords 0) (\<lambda>c0.
       Inr \<lparr>index = c8, middle = c12, ring = c16, pinkie = c20, thumb = c4, palm = c0\<rparr>))))))"

definition is_shaking :: "coord \<Rightarrow> coord \<Rightarrow> real \<Rightarrow> bool" where
  "is_shaking palm_coords past_palm_coords sensitivity \<longleftrightarrow>
     \<bar>coord_x palm_coords - coord_x past_palm_coords\<bar> < sensitivity
     \<and> \<bar>coord_y palm_coords - coord_y past_palm_coords\<bar> < sensitivity
     \<and> \<bar>coord_z palm_coords - coord_z past_palm_coords\<bar> < sensitivity"

text \<open>One conjunct of \<^verbatim>\<open>is_fist\<close>: \<^verbatim>\<open>not coords[tip].get("y") <= coords[joint].get("y")\<close>.\<close>

definition tip_below_joint :: "coord list \<Rightarrow> nat \<Rightarrow> nat \<Rightarrow> error + bool" where
  "tip_below_joint coords tip joint =
     and_then (item coords tip) (\<lambda>t.
     and_then (item coords joint) (\<lambda>j.
       Inr (\<not> coord_y t \<le> coord_y j)))"

definition is_fist :: "coord list \<Rightarrow> error + bool" where
  "is_fist coords =
     py_and (tip_below_joint coords 8 6)
    (py_and (tip_below_joint coords 12 10)
    (py_and (tip_below_joint coords 16 14)
            (tip_below_joint coords 20 18)))"

section \<open>The keyboard channel\<close>

text \<open>
  Lines 225 to 255 of \<^verbatim>\<open>translate_landmarks_to_keyboard_action\<close>: the four finger tests and
  the release of alt+tab, reached whenever the fist block above them did not return.
  \<open>acts\<close> holds the library calls already made in this call.
\<close>

definition finger_release ::
  "translator \<Rightarrow> coord list \<Rightarrow> coord list \<Rightarrow> hand_coords \<Rightarrow> hand_coords \<Rightarrow>
   keyboard_action list \<Rightarrow> error + keyboard_action list" where
  "finger_release self coords past_coords hand past_hand acts =
     (let index_thumb_distance = get_3d_distance (index hand) (thumb hand);
          middle_thumb_distance = get_3d_distance (middle hand) (thumb hand);
          ring_thumb_distance = get_3d_distance (ring hand) (thumb hand);
          pinkie_thumb_distance = get_3d_distance (pinkie hand) (thumb hand);
          past_index_thumb_distance = get_3d_distance (index past_hand) (thumb past_hand);
          past_middle_thumb_distance = get_3d_distance (middle past_hand) (thumb past_hand);
          past_ring_thumb_distance = get_3d_distance (ring past_hand) (thumb past_hand);
          past_pinkie_thumb_distance = get_3d_distance (pinkie past_hand) (thumb past_hand)
      in
        if \<not> index_thumb_distance \<le> distance_threshold self
           \<and> past_index_thumb_distance \<le> distance_threshold self
        then Inr (acts @ [Send ''space''])
        else if \<not> middle_thumb_distance \<le> distance_threshold self
           \<and> past_middle_thumb_distance \<le> distance_threshold self
        then Inr (acts @ [Send ''enter''])
        else if \<not> ring_thumb_distance \<le> distance_threshold self
           \<and> past_ring_thumb_distance \<le> distance_threshold self
        then Inr (acts @ [Send ''backspace''])
        else if \<not> pinkie_thumb_distance \<le> distance_threshold self
           \<and> past_pinkie_thumb_distance \<le> distance_threshold self
        then Inr (acts @ [Send ''escape''])
        else
          and_then (py_and (and_then (is_fist coords) (\<lambda>f. Inr (\<not> f))) (is_fist past_coords))
            (\<lambda>leaving. if leaving then Inr (acts @ [Release ''alt+tab'']) else Inr acts))"

definition translate_landmarks_to_keyboard_action ::
  "translator \<Rightarrow> coord list \<Rightarrow> coord list \<Rightarrow> error + keyboard_action list" where
  "translate_landmarks_to_keyboard_action self coords past_coords =
     (if length past_coords = 0 then Inr []
      else
        and_then (get_hand_coords coords) (\<lambda>hand.
        and_then (get_hand_coords past_coords) (\<lambda>past_hand.
        and_then (is_fist coords) (\<lambda>fist.
          if fist then
            and_then (is_fist past_coords) (\<lambda>past_fist.
              let acts = (if \<not> past_fist then [Press ''alt+tab''] else []) in
              if \<not> is_shaking (palm hand) (palm past_hand) (shake_sensitivity self + 8 / 1000)
              then
                if coord_x (palm hand) \<le> coord_x (palm past_hand)
                then Inr (acts @ [Send ''shift+tab''])
                else if coord_x (palm hand) > coord_x (palm past_hand)
                then Inr (acts @ [Send ''tab''])
                else if coord_y (palm hand) \<le> coord_y (palm past_hand)
                then Inr (acts @ [Send ''down arrow''])
                else if coord_y (palm hand) > coord_y (palm past_hand)
                then Inr (acts @ [Send ''up arrow''])
                else finger_release self coords past_coords hand past_hand acts
              else finger_release self coords past_coords hand past_hand acts)
          else finger_release self coords past_coords hand past_hand []))))"

section \<open>The mouse channel\<close>

text \<open>
  \<open>mp_past_landmarks\<close> is \<open>None\<close> when the argument itself is falsy (\<^verbatim>\<open>not mp_past_landmarks\<close>)
  and \<open>Some l\<close> for a landmark list \<open>l\<close>. \<open>cursor\<close> is the pair returned by
  \<^verbatim>\<open>mouse.get_position()\<close>, read after the check of the previous landmarks.
\<close>

definition translate_landmarks_to_mouse_action ::
  "translator \<Rightarrow> coord list \<Rightarrow> coord list option \<Rightarrow> int \<times> int \<Rightarrow> error + mouse_action list" where
  "translate_landmarks_to_mouse_action self coords mp_past_landmarks cursor =
     (case mp_past_landmarks of
        None \<Rightarrow> Inr []
      | Some past_coords \<Rightarrow>
          if length past_coords = 0 then Inr []
          else
            let cursor_x_position = fst cursor; cursor_y_position = snd cursor in
            and_then (get_hand_coords coords) (\<lambda>hand.
            and_then (item past_coords 0) (\<lambda>past_palm_coords.
              let index_thumb_distance = get_3d_distance (index hand) (thumb hand);
                  middle_thumb_distance = get_3d_distance (middle hand) (thumb hand);
                  ring_thumb_distance = get_3d_distance (ring hand) (thumb hand)
              in
                if is_shaking (palm hand) past_palm_coords (shake_sensitivity self) then Inr []
                else
                  and_then (is_fist coords) (\<lambda>fist.
                    if fist then Inr []
                    else if index_thumb_distance \<le> distance_threshold self then Inr [Click]
                    else if ring_thumb_distance \<le> distance_threshold self then Inr [Right_click]
                    else if middle_thumb_distance \<le> distance_threshold self then
                      (let clicks_to_scroll =
                             py_int (scroll_sensitivity self *
                                     (coord_y (palm hand) - coord_y past_palm_coords))
                       in Inr [Wheel (- clicks_to_scroll)])
                    else
                      (let new_x_position = real_of_int cursor_x_position +
                             mouse_sensitivity self *
                               (coord_x (palm hand) - coord_x past_palm_coords);
                           new_y_position = real_of_int cursor_y_position +
                             mouse_sensitivity self *
                               (coord_y (palm hand) - coord_y past_palm_coords)
                       in Inr [Move new_x_position new_y_position])))))"

section \<open>Well-formed skeletons and the words of the specification\<close>

text \<open>A detected hand has exactly 21 landmarks.\<close>

definition valid_skeleton :: "coord list \<Rightarrow> bool" where
  "valid_skeleton coords \<longleftrightarrow> length coords = 21"

text \<open>
  The fist test as the specification words it: each of the four non-thumb fingertips has a
  y-coordinate strictly greater than that of its mid-joint.
\<close>

definition all_four_curled :: "coord list \<Rightarrow> bool" where
  "all_four_curled coords \<longleftrightarrow>
     coord_y (coords ! 8) > coord_y (coords ! 6)
     \<and> coord_y (coords ! 12) > coord_y (coords ! 10)
     \<and> coord_y (coords ! 16) > coord_y (coords ! 14)
     \<and> coord_y (coords ! 20) > coord_y (coords ! 18)"

text \<open>The keys passed to \<^verbatim>\<open>keyboard.send\<close> in a list of calls, in order.\<close>

fun sends :: "keyboard_action list \<Rightarrow> string list" where
  "sends [] = []"
| "sends (Send k # as) = k # sends as"
| "sends (Press k # as) = sends as"
| "sends (Release k # as) = sends as"

text \<open>
  The finger rule as the specification words it: a falling edge of a finger is a distance
  to the thumb tip (landmark 4) above the threshold now and at most the threshold before;
  the fingers are tried in the order index, middle, ring, pinkie.
\<close>

definition falling_edge :: "translator \<Rightarrow> coord list \<Rightarrow> coord list \<Rightarrow> nat \<Rightarrow> bool" where
  "falling_edge self coords past_coords tip \<longleftrightarrow>
     get_3d_distance (coords ! tip) (coords ! 4) > distance_threshold self
     \<and> get_3d_distance (past_coords ! tip) (past_coords ! 4) \<le> distance_threshold self"

definition finger_keys :: "(nat \<times> string) list" where
  "finger_keys = [(8, ''space''), (12, ''enter''), (16, ''backspace''), (20, ''escape'')]"

definition first_released_key :: "translator \<Rightarrow> coord list \<Rightarrow> coord list \<Rightarrow> string option" where
  "first_released_key self coords past_coords =
     map_option snd (find (\<lambda>(tip, key). falling_edge self coords past_coords tip) finger_keys)"

text \<open>The direction rule of the fist navigation as the specification words it.\<close>

definition direction_key :: "coord \<Rightarrow> coord \<Rightarrow> string" where
  "direction_key p prev =
     (if coord_x p \<le> coord_x prev then ''shift+tab''
      else if coord_x p > coord_x prev then ''tab''
      else if coord_y p \<le> coord_y prev then ''down''
      else ''up'')"

section \<open>Sample inputs\<close>

text \<open>The configuration that gui.py constructs: \<^verbatim>\<open>Translator(0.06, 0.002, 3000, 200)\<close>.\<close>

definition gui_translator :: translator where
  "gui_translator =
     \<lparr>distance_threshold = 6 / 100, shake_sensitivity = 2 / 1000,
      mouse_sensitivity = 3000, scroll_sensitivity = 200\<rparr>"

definition pt :: "real \<Rightarrow> real \<Rightarrow> real \<Rightarrow> coord" where
  "pt a b c = \<lparr>coord_x = a, coord_y = b, coord_z = c\<rparr>"

text \<open>
  A skeleton of 21 points with the palm at \<open>c0\<close>, the four fingertips at height \<open>y8\<close>,
  \<open>y12\<close>, \<open>y16\<close>, \<open>y20\<close> on the line \<open>x = 1/2\<close>, \<open>z = 0\<close>, and every other landmark (the thumb
  tip and the mid-joints among them) at \<open>(1/2, 1/2, 0)\<close>. A fingertip is below its joint
  when its height exceeds \<open>1/2\<close>, and its distance to the thumb tip is the difference of
  its height to \<open>1/2\<close>.
\<close>

definition hand_at :: "coord \<Rightarrow> real \<Rightarrow> real \<Rightarrow> real \<Rightarrow> real \<Rightarrow> coord list" where
  "hand_at c0 y8 y12 y16 y20 =
     (replicate 21 (pt (1 / 2) (1 / 2) 0))
       [0 := c0, 8 := pt (1 / 2) y8 0, 12 := pt (1 / 2) y12 0,
        16 := pt (1 / 2) y16 0, 20 := pt (1 / 2) y20 0]"

text \<open>
  A malformed skeleton of 20 points (landmark 20 is missing), with the index, middle and
  ring fingertips at height \<open>y8\<close>, \<open>y12\<close>, \<open>y16\<close> and every other point at \<open>(1/2, 1/2, 0)\<close>.
\<close>

definition twenty_points :: "real \<Rightarrow> real \<Rightarrow> real \<Rightarrow> coord list" where
  "twenty_points y8 y12 y16 =
     (replicate 20 (pt (1 / 2) (1 / 2) 0))
       [8 := pt (1 / 2) y8 0, 12 := pt (1 / 2) y12 0, 16 := pt (1 / 2) y16 0]"

section \<open>Basic facts about the helpers\<close>

lemma and_then_Inr [simp]: "and_then (Inr v) f = f v"
  by (simp add: and_then_def)

lemma and_then_Inl [simp]: "and_then (Inl e) f = Inl e"
  by (simp add: and_then_def)

lemma py_and_Inr [simp]: "py_and (Inr a) b = (if a then b else Inr False)"
  by (simp add: py_and_def)

lemma py_and_Inl [simp]: "py_and (Inl e) b = Inl e"
  by (simp add: py_and_def)

lemma error_is_IndexError: "e = IndexError"
  by (cases e) simp

lemma item_in_range: "i < length coords \<Longrightarrow> item coords i = Inr (coords ! i)"
  by (simp add: item_def)

lemma sends_append [simp]: "sends (as @ bs) = sends as @ sends bs"
  by (induction as rule: sends.induct) simp_all

lemma get_hand_coords_valid:
  assumes "valid_skeleton coords"
  shows "get_hand_coords coords =
           Inr \<lparr>index = coords ! 8, middle = coords ! 12, ring = coords ! 16,
                pinkie = coords ! 20, thumb = coords ! 4, palm = coords ! 0\<rparr>"
  using assms by (simp add: get_hand_coords_def valid_skeleton_def item_in_range)

lemma tip_below_joint_valid:
  assumes "valid_skeleton coords" and "tip < 21" and "joint < 21"
  shows "tip_below_joint coords tip joint =
           Inr (coord_y (coords ! tip) > coord_y (coords ! joint))"
  using assms by (simp add: tip_below_joint_def valid_skeleton_def item_in_range not_le)

lemma is_fist_valid:
  assumes "valid_skeleton coords"
  shows "is_fist coords = Inr (all_four_curled coords)"
  using assms by (simp add: is_fist_def tip_below_joint_valid all_four_curled_def)

lemma finger_release_valid:
  assumes "valid_skeleton coords" and "valid_skeleton past_coords"
  shows "finger_release self coords past_coords
           \<lparr>index = coords ! 8, middle = coords ! 12, ring = coords ! 16,
            pinkie = coords ! 20, thumb = coords ! 4, palm = coords ! 0\<rparr>
           \<lparr>index = past_coords ! 8, middle = past_coords ! 12, ring = past_coords ! 16,
            pinkie = past_coords ! 20, thumb = past_coords ! 4, palm = past_coords ! 0\<rparr>
           acts =
         Inr (acts @
           (case first_released_key self coords past_coords of
              Some key \<Rightarrow> [Send key]
            | None \<Rightarrow>
                if \<not> all_four_curled coords \<and> all_four_curled past_coords
                then [Release ''alt+tab''] else []))"
  using assms
  by (simp add: finger_release_def first_released_key_def finger_keys_def falling_edge_def
      is_fist_valid not_le)

text \<open>The keyboard channel on two skeletons of 21 points, without the error plumbing.\<close>

lemma keyboard_valid:
  assumes "valid_skeleton coords" and "valid_skeleton past_coords"
  shows "translate_landmarks_to_keyboard_action self coords past_coords =
         Inr (if all_four_curled coords then
                (if all_four_curled past_coords then [] else [Press ''alt+tab'']) @
                (if \<not> is_shaking (coords ! 0) (past_coords ! 0) (shake_sensitivity self + 8 / 1000)
                 then [Send (if coord_x (coords ! 0) \<le> coord_x (past_coords ! 0)
                             then ''shift+tab'' else ''tab'')]
                 else case first_released_key self coords past_coords of
                        Some key \<Rightarrow> [Send key] | None \<Rightarrow> [])
              else
                (case first_released_key self coords past_coords of
                   Some key \<Rightarrow> [Send key]
                 | None \<Rightarrow> if all_four_curled past_coords then [Release ''alt+tab''] else []))"
proof -
  have "past_coords \<noteq> []"
    using assms(2) by (auto simp: valid_skeleton_def)
  then show ?thesis
    using assms
    by (simp add: translate_landmarks_to_keyboard_action_def get_hand_coords_valid
        is_fist_valid finger_release_valid not_le split: option.split)
qed

text \<open>
  The mouse channel on a current skeleton of 21 points and a non-empty previous one,
  without the error plumbing.
\<close>

lemma mouse_valid:
  assumes "valid_skeleton coords" and "past_coords \<noteq> []"
  shows "translate_landmarks_to_mouse_action self coords (Some past_coords) cursor =
         Inr (if is_shaking (coords ! 0) (past_coords ! 0) (shake_sensitivity self) then []
              else if all_four_curled coords then []
              else if get_3d_distance (coords ! 8) (coords ! 4) \<le> distance_threshold self
                then [Click]
              else if get_3d_distance (coords ! 16) (coords ! 4) \<le> distance_threshold self
                then [Right_click]
              else if get_3d_distance (coords ! 12) (coords ! 4) \<le> distance_threshold self
                then [Wheel (- py_int (scroll_sensitivity self *
                                        (coord_y (coords ! 0) - coord_y (past_coords ! 0))))]
              else [Move (real_of_int (fst cursor) + mouse_sensitivity self *
                            (coord_x (coords ! 0) - coord_x (past_coords ! 0)))
                         (real_of_int (snd cursor) + mouse_sensitivity self *
                            (coord_y (coords ! 0) - coord_y (past_coords ! 0)))])"
  using assms
  by (simp add: translate_landmarks_to_mouse_action_def get_hand_coords_valid
      is_fist_valid item_in_range)

section \<open>Facts about the sample inputs\<close>

lemma pt_sel: "coord_x (pt a b c) = a" "coord_y (pt a b c) = b" "coord_z (pt a b c) = c"
  by (simp_all add: pt_def)

lemma hand_at_valid: "valid_skeleton (hand_at c0 y8 y12 y16 y20)"
  by (simp add: hand_at_def valid_skeleton_def)

lemma hand_at_nonempty: "hand_at c0 y8 y12 y16 y20 \<noteq> []"
  by (simp add: hand_at_def)

lemma hand_at_nth:
  "hand_at c0 y8 y12 y16 y20 ! 0 = c0"
  "hand_at c0 y8 y12 y16 y20 ! 4 = pt (1 / 2) (1 / 2) 0"
  "hand_at c0 y8 y12 y16 y20 ! 6 = pt (1 / 2) (1 / 2) 0"
  "hand_at c0 y8 y12 y16 y20 ! 8 = pt (1 / 2) y8 0"
  "hand_at c0 y8 y12 y16 y20 ! 10 = pt (1 / 2) (1 / 2) 0"
  "hand_at c0 y8 y12 y16 y20 ! 12 = pt (1 / 2) y12 0"
  "hand_at c0 y8 y12 y16 y20 ! 14 = pt (1 / 2) (1 / 2) 0"
  "hand_at c0 y8 y12 y16 y20 ! 16 = pt (1 / 2) y16 0"
  "hand_at c0 y8 y12 y16 y20 ! 18 = pt (1 / 2) (1 / 2) 0"
  "hand_at c0 y8 y12 y16 y20 ! 20 = pt (1 / 2) y20 0"
  by (simp_all add: hand_at_def)

lemma hand_at_curled:
  "all_four_curled (hand_at c0 y8 y12 y16 y20) \<longleftrightarrow>
     1 / 2 < y8 \<and> 1 / 2 < y12 \<and> 1 / 2 < y16 \<and> 1 / 2 < y20"
  by (simp add: all_four_curled_def hand_at_nth pt_sel)

lemma twenty_points_length: "length (twenty_points y8 y12 y16) = 20"
  by (simp add: twenty_points_def)

lemma twenty_points_nth:
  "twenty_points y8 y12 y16 ! 6 = pt (1 / 2) (1 / 2) 0"
  "twenty_points y8 y12 y16 ! 8 = pt (1 / 2) y8 0"
  "twenty_points y8 y12 y16 ! 10 = pt (1 / 2) (1 / 2) 0"
  "twenty_points y8 y12 y16 ! 12 = pt (1 / 2) y12 0"
  "twenty_points y8 y12 y16 ! 14 = pt (1 / 2) (1 / 2) 0"
  "twenty_points y8 y12 y16 ! 16 = pt (1 / 2) y16 0"
  by (simp_all add: twenty_points_def)

lemma tip_distance: "get_3d_distance (pt (1 / 2) y 0) (pt (1 / 2) (1 / 2) 0) = \<bar>y - 1 / 2\<bar>"
  by (simp add: get_3d_distance_def pt_sel)

section \<open>Distance\<close>

text \<open>
  C10. The distance of a point to itself is zero, and the distance does not depend on the
  order of its two arguments.
\<close>

theorem get_3d_distance_zero_and_symmetric:
  "get_3d_distance a a = 0 \<and> get_3d_distance a b = get_3d_distance b a"
  by (simp add: get_3d_distance_def power2_commute)

section \<open>The fist test\<close>

text \<open>
  C8. On a skeleton of 21 points \<open>is_fist\<close> returns true exactly when each of the four
  non-thumb fingertips (8, 12, 16, 20) lies strictly below its mid-joint (6, 10, 14, 18)
  in y; replacing any thumb landmark (1 to 4) leaves the answer unchanged, and a single
  finger whose tip is not below its joint makes the answer false.
\<close>

theorem is_fist_iff_all_four_curled:
  assumes "valid_skeleton coords"
  shows "is_fist coords =
           Inr (coord_y (coords ! 8) > coord_y (coords ! 6)
                \<and> coord_y (coords ! 12) > coord_y (coords ! 10)
                \<and> coord_y (coords ! 16) > coord_y (coords ! 14)
                \<and> coord_y (coords ! 20) > coord_y (coords ! 18))
         \<and> (\<forall>i \<in> {1, 2, 3, 4}. \<forall>p. is_fist (coords[i := p]) = is_fist coords)
         \<and> (coord_y (coords ! 8) \<le> coord_y (coords ! 6)
              \<or> coord_y (coords ! 12) \<le> coord_y (coords ! 10)
              \<or> coord_y (coords ! 16) \<le> coord_y (coords ! 14)
              \<or> coord_y (coords ! 20) \<le> coord_y (coords ! 18)
            \<longrightarrow> is_fist coords = Inr False)"
proof (intro conjI ballI allI impI)
  show "is_fist coords =
           Inr (coord_y (coords ! 8) > coord_y (coords ! 6)
                \<and> coord_y (coords ! 12) > coord_y (coords ! 10)
                \<and> coord_y (coords ! 16) > coord_y (coords ! 14)
                \<and> coord_y (coords ! 20) > coord_y (coords ! 18))"
    using assms by (simp add: is_fist_valid all_four_curled_def)
next
  fix i :: nat and p
  assume i: "i \<in> {1, 2, 3, 4}"
  have v: "valid_skeleton (coords[i := p])"
    using assms by (simp add: valid_skeleton_def)
  from i have "all_four_curled (coords[i := p]) = all_four_curled coords"
    by (auto simp: all_four_curled_def)
  then show "is_fist (coords[i := p]) = is_fist coords"
    using assms v by (simp add: is_fist_valid)
next
  assume "coord_y (coords ! 8) \<le> coord_y (coords ! 6)
         \<or> coord_y (coords ! 12) \<le> coord_y (coords ! 10)
         \<or> coord_y (coords ! 16) \<le> coord_y (coords ! 14)
         \<or> coord_y (coords ! 20) \<le> coord_y (coords ! 18)"
  then show "is_fist coords = Inr False"
    using assms by (auto simp: is_fist_valid all_four_curled_def)
qed

theorem is_fist_iff_all_four_curled_witness:
  "valid_skeleton (hand_at (pt (1 / 2) (1 / 2) 0) (6 / 10) (6 / 10) (6 / 10) (4 / 10))
   \<and> is_fist (hand_at (pt (1 / 2) (1 / 2) 0) (6 / 10) (6 / 10) (6 / 10) (4 / 10)) = Inr False
   \<and> is_fist ((hand_at (pt (1 / 2) (1 / 2) 0) (6 / 10) (6 / 10) (6 / 10) (4 / 10))
                [4 := pt 1 1 1])
       = is_fist (hand_at (pt (1 / 2) (1 / 2) 0) (6 / 10) (6 / 10) (6 / 10) (4 / 10))"
  using is_fist_iff_all_four_curled
          [of "hand_at (pt (1 / 2) (1 / 2) 0) (6 / 10) (6 / 10) (6 / 10) (4 / 10)"]
  by (simp add: hand_at_valid hand_at_nth pt_sel)

section \<open>An empty previous skeleton\<close>

text \<open>
  C7. When the previous landmark list is empty (or, for the mouse channel, absent), both
  translate functions return at once: no keyboard or mouse call is made and no exception
  is raised, whatever the current landmarks, the configuration and the cursor are.
\<close>

theorem empty_previous_no_action:
  "translate_landmarks_to_keyboard_action self coords [] = Inr []
   \<and> translate_landmarks_to_mouse_action self coords (Some []) cursor = Inr []
   \<and> translate_landmarks_to_mouse_action self coords None cursor = Inr []"
  by (simp add: translate_landmarks_to_keyboard_action_def
      translate_landmarks_to_mouse_action_def)

section \<open>Decisions of the mouse channel\<close>

text \<open>
  C3. With a current skeleton of 21 points and a non-empty previous skeleton, the mouse
  channel makes at most one call, chosen by the first rule that applies: a shaking palm
  (plain shake sensitivity) gives nothing; otherwise a fist gives nothing; otherwise an
  index-thumb distance within the threshold gives a left click; otherwise a ring-thumb
  distance within the threshold gives a right click; otherwise a middle-thumb distance
  within the threshold gives a scroll; otherwise the cursor moves to the read cursor
  position plus the mouse sensitivity times the palm displacement. The outcome depends
  on the previous skeleton only through its palm, so the click and scroll tests do not
  look at earlier distances.
\<close>

theorem mouse_first_matching_rule:
  assumes "valid_skeleton coords" and "past_coords \<noteq> []"
  shows "translate_landmarks_to_mouse_action self coords (Some past_coords) cursor =
         Inr (if is_shaking (coords ! 0) (past_coords ! 0) (shake_sensitivity self) then []
              else if all_four_curled coords then []
              else if get_3d_distance (coords ! 8) (coords ! 4) \<le> distance_threshold self
                then [Click]
              else if get_3d_distance (coords ! 16) (coords ! 4) \<le> distance_threshold self
                then [Right_click]
              else if get_3d_distance (coords ! 12) (coords ! 4) \<le> distance_threshold self
                then [Wheel (- py_int (scroll_sensitivity self *
                                        (coord_y (coords ! 0) - coord_y (past_coords ! 0))))]
              else [Move (real_of_int (fst cursor) + mouse_sensitivity self *
                            (coord_x (coords ! 0) - coord_x (past_coords ! 0)))
                         (real_of_int (snd cursor) + mouse_sensitivity self *
                            (coord_y (coords ! 0) - coord_y (past_coords ! 0)))])
         \<and> (\<exists>acts. translate_landmarks_to_mouse_action self coords (Some past_coords) cursor
                      = Inr acts \<and> length acts \<le> 1)
         \<and> (\<forall>other. other \<noteq> [] \<and> other ! 0 = past_coords ! 0 \<longrightarrow>
               translate_landmarks_to_mouse_action self coords (Some other) cursor =
               translate_landmarks_to_mouse_action self coords (Some past_coords) cursor)"
proof (intro conjI allI impI)
  show "translate_landmarks_to_mouse_action self coords (Some past_coords) cursor =
         Inr (if is_shaking (coords ! 0) (past_coords ! 0) (shake_sensitivity self) then []
              else if all_four_curled coords then []
              else if get_3d_distance (coords ! 8) (coords ! 4) \<le> distance_threshold self
                then [Click]
              else if get_3d_distance (coords ! 16) (coords ! 4) \<le> distance_threshold self
                then [Right_click]
              else if get_3d_distance (coords ! 12) (coords ! 4) \<le> distance_threshold self
                then [Wheel (- py_int (scroll_sensitivity self *
                                        (coord_y (coords ! 0) - coord_y (past_coords ! 0))))]
              else [Move (real_of_int (fst cursor) + mouse_sensitivity self *
                            (coord_x (coords ! 0) - coord_x (past_coords ! 0)))
                         (real_of_int (snd cursor) + mouse_sensitivity self *
                            (coord_y (coords ! 0) - coord_y (past_coords ! 0)))])"
    using assms by (rule mouse_valid)
next
  show "\<exists>acts. translate_landmarks_to_mouse_action self coords (Some past_coords) cursor
                  = Inr acts \<and> length acts \<le> 1"
    using assms by (simp add: mouse_valid)
next
  fix other :: "coord list"
  assume "other \<noteq> [] \<and> other ! 0 = past_coords ! 0"
  then show "translate_landmarks_to_mouse_action self coords (Some other) cursor =
             translate_landmarks_to_mouse_action self coords (Some past_coords) cursor"
    using assms by (simp add: mouse_valid)
qed

text \<open>
  An open hand touching index and thumb while the palm moves: the click fires although
  the fingers were already touching in the previous skeleton.
\<close>

theorem mouse_first_matching_rule_witness:
  "valid_skeleton (hand_at (pt (1 / 2) (51 / 100) 0) (45 / 100) (4 / 10) (4 / 10) (4 / 10))
   \<and> hand_at (pt (1 / 2) (1 / 2) 0) (45 / 100) (4 / 10) (4 / 10) (4 / 10) \<noteq> []
   \<and> translate_landmarks_to_mouse_action gui_translator
        (hand_at (pt (1 / 2) (51 / 100) 0) (45 / 100) (4 / 10) (4 / 10) (4 / 10))
        (Some (hand_at (pt (1 / 2) (1 / 2) 0) (45 / 100) (4 / 10) (4 / 10) (4 / 10)))
        (100, 100)
      = Inr [Click]"
  using mouse_first_matching_rule
          [where coords = "hand_at (pt (1 / 2) (51 / 100) 0) (45 / 100) (4 / 10) (4 / 10) (4 / 10)"
             and past_coords =
               "hand_at (pt (1 / 2) (1 / 2) 0) (45 / 100) (4 / 10) (4 / 10) (4 / 10)"
             and self = gui_translator and cursor = "(100, 100)"]
  by (simp add: hand_at_valid hand_at_nonempty hand_at_nth hand_at_curled tip_distance pt_sel
      is_shaking_def gui_translator_def)

text \<open>
  C4, as stated, fails: the amount passed to \<^verbatim>\<open>mouse.wheel\<close> is not rounded to the nearest
  integer. With the middle finger on the thumb, a scroll sensitivity of 200 and the palm
  0.009 lower in the image, the product is 1.8: the code scrolls by -1, rounding would
  give -2.
\<close>

theorem scroll_amount_is_not_rounded:
  "translate_landmarks_to_mouse_action gui_translator
     (hand_at (pt (1 / 2) (509 / 1000) 0) (4 / 10) (45 / 100) (4 / 10) (4 / 10))
     (Some (hand_at (pt (1 / 2) (1 / 2) 0) (4 / 10) (45 / 100) (4 / 10) (4 / 10)))
     (100, 100)
   = Inr [Wheel (- 1)]
   \<and> - round (scroll_sensitivity gui_translator *
               (coord_y (hand_at (pt (1 / 2) (509 / 1000) 0) (4 / 10) (45 / 100) (4 / 10) (4 / 10) ! 0)
                - coord_y (hand_at (pt (1 / 2) (1 / 2) 0) (4 / 10) (45 / 100) (4 / 10) (4 / 10) ! 0)))
     = (- 2 :: int)"
  by (simp add: mouse_valid hand_at_valid hand_at_nonempty hand_at_nth hand_at_curled
      tip_distance pt_sel is_shaking_def gui_translator_def py_int_def round_def)

text \<open>
  C4, amended. In the scroll branch (current skeleton of 21 points, previous non-empty,
  palm not shaking, no fist, index-thumb and ring-thumb distances above the threshold,
  middle-thumb distance within it) the only call is \<^verbatim>\<open>mouse.wheel\<close> with minus the product
  of scroll sensitivity and palm displacement in y truncated towards zero, and the cursor
  is not moved; a palm 0.01 higher in the image with scroll sensitivity 200 scrolls by 2.
\<close>

theorem scroll_amount_is_truncated:
  assumes "valid_skeleton coords" and "past_coords \<noteq> []"
    and "\<not> is_shaking (coords ! 0) (past_coords ! 0) (shake_sensitivity self)"
    and "is_fist coords = Inr False"
    and "get_3d_distance (coords ! 8) (coords ! 4) > distance_threshold self"
    and "get_3d_distance (coords ! 16) (coords ! 4) > distance_threshold self"
    and "get_3d_distance (coords ! 12) (coords ! 4) \<le> distance_threshold self"
  shows "translate_landmarks_to_mouse_action self coords (Some past_coords) cursor =
           Inr [Wheel (- py_int (scroll_sensitivity self *
                                  (coord_y (coords ! 0) - coord_y (past_coords ! 0))))]
         \<and> (scroll_sensitivity self = 200
              \<and> coord_y (coords ! 0) - coord_y (past_coords ! 0) = - (1 / 100)
            \<longrightarrow> translate_landmarks_to_mouse_action self coords (Some past_coords) cursor =
                  Inr [Wheel 2])"
proof -
  from assms(1,4) have nofist: "\<not> all_four_curled coords"
    by (simp add: is_fist_valid)
  have eq: "translate_landmarks_to_mouse_action self coords (Some past_coords) cursor =
           Inr [Wheel (- py_int (scroll_sensitivity self *
                                  (coord_y (coords ! 0) - coord_y (past_coords ! 0))))]"
    using assms(3,5,6,7) nofist by (simp add: mouse_valid [OF assms(1,2)])
  have "py_int (200 * - (1 / 100)) = - 2"
    by (simp add: py_int_def)
  with eq show ?thesis by simp
qed

theorem scroll_amount_is_truncated_witness:
  "valid_skeleton (hand_at (pt (1 / 2) (49 / 100) 0) (4 / 10) (45 / 100) (4 / 10) (4 / 10))
   \<and> hand_at (pt (1 / 2) (1 / 2) 0) (4 / 10) (45 / 100) (4 / 10) (4 / 10) \<noteq> []
   \<and> is_fist (hand_at (pt (1 / 2) (49 / 100) 0) (4 / 10) (45 / 100) (4 / 10) (4 / 10))
       = Inr False
   \<and> translate_landmarks_to_mouse_action gui_translator
        (hand_at (pt (1 / 2) (49 / 100) 0) (4 / 10) (45 / 100) (4 / 10) (4 / 10))
        (Some (hand_at (pt (1 / 2) (1 / 2) 0) (4 / 10) (45 / 100) (4 / 10) (4 / 10)))
        (100, 100)
      = Inr [Wheel 2]"
  using scroll_amount_is_truncated
          [where coords = "hand_at (pt (1 / 2) (49 / 100) 0) (4 / 10) (45 / 100) (4 / 10) (4 / 10)"
             and past_coords =
               "hand_at (pt (1 / 2) (1 / 2) 0) (4 / 10) (45 / 100) (4 / 10) (4 / 10)"
             and self = gui_translator and cursor = "(100, 100)"]
  by (simp add: hand_at_valid hand_at_nonempty hand_at_nth hand_at_curled is_fist_valid
      tip_distance pt_sel is_shaking_def gui_translator_def py_int_def)

section \<open>Index accesses\<close>

text \<open>A skeleton of fewer than 21 points has no landmark 20.\<close>

lemma get_hand_coords_short:
  assumes "length short < 21"
  shows "get_hand_coords short = Inl IndexError"
proof -
  from assms have "item short 20 = Inl IndexError"
    by (simp add: item_def)
  then show ?thesis
    by (simp add: get_hand_coords_def and_then_def error_is_IndexError split: sum.split)
qed

text \<open>
  The finger tests of \<open>is_fist\<close> on such a skeleton, in the order they are evaluated: each
  test raises when the fingertip it reads is missing, and ends the conjunction with
  false when the tip is not below the joint; the pinkie test always raises.
\<close>

lemma is_fist_short:
  assumes "length short < 21"
  shows "is_fist short =
           (if length short \<le> 8 then Inl IndexError
            else if coord_y (short ! 8) \<le> coord_y (short ! 6) then Inr False
            else if length short \<le> 12 then Inl IndexError
            else if coord_y (short ! 12) \<le> coord_y (short ! 10) then Inr False
            else if length short \<le> 16 then Inl IndexError
            else if coord_y (short ! 16) \<le> coord_y (short ! 14) then Inr False
            else Inl IndexError)"
  using assms by (simp add: is_fist_def tip_below_joint_def item_def)

text \<open>
  C9, as stated, fails twice. First, \<open>is_fist\<close> is defined on some skeletons of fewer than
  21 points: its conjunction stops at the first finger that is not curled, so on 20 equal
  points it returns false without reading index 20. Second, the precondition admits an
  empty current skeleton beside a previous one of 21 points, and there both translate
  functions read index 8 of the empty list and raise.
\<close>

theorem index_claim_fails_on_short_skeletons:
  "length (replicate 20 (pt (1 / 2) (1 / 2) 0)) < 21
   \<and> is_fist (replicate 20 (pt (1 / 2) (1 / 2) 0)) = Inr False
   \<and> valid_skeleton (hand_at (pt (1 / 2) (1 / 2) 0) (4 / 10) (4 / 10) (4 / 10) (4 / 10))
   \<and> translate_landmarks_to_keyboard_action gui_translator []
        (hand_at (pt (1 / 2) (1 / 2) 0) (4 / 10) (4 / 10) (4 / 10) (4 / 10))
      = Inl IndexError
   \<and> translate_landmarks_to_mouse_action gui_translator []
        (Some (hand_at (pt (1 / 2) (1 / 2) 0) (4 / 10) (4 / 10) (4 / 10) (4 / 10)))
        (100, 100)
      = Inl IndexError"
  by (simp add: is_fist_def tip_below_joint_def item_def hand_at_valid hand_at_nonempty
      translate_landmarks_to_keyboard_action_def translate_landmarks_to_mouse_action_def
      get_hand_coords_def)

text \<open>
  C9, amended. When the previous skeleton is empty, or when the current and the previous
  skeleton both have 21 points, neither translate function raises; on a skeleton of 21
  points neither \<open>get_hand_coords\<close> nor \<open>is_fist\<close> raises. So with 21 points every index
  that is read (0, 4, 6, 8, 10, 12, 14, 16, 18, 20) is in range. On a skeleton of fewer
  than 21 points, the empty one included, \<open>get_hand_coords\<close> raises IndexError, and so do
  both translate functions when that skeleton is the current one and the previous one is
  not empty. On such a skeleton \<open>is_fist\<close> never answers true: going through the fingers
  index, middle, ring, pinkie it raises IndexError at the first finger whose tip is
  missing, unless an earlier finger is not curled, in which case it answers false; the
  pinkie tip (index 20) is always missing.
\<close>

theorem index_accesses_in_bounds:
  "(past_coords = [] \<or> valid_skeleton coords \<and> valid_skeleton past_coords \<longrightarrow>
      (\<exists>acts. translate_landmarks_to_keyboard_action self coords past_coords = Inr acts)
      \<and> (\<exists>acts. translate_landmarks_to_mouse_action self coords (Some past_coords) cursor
                   = Inr acts))
   \<and> (valid_skeleton coords \<longrightarrow>
        (\<exists>hand. get_hand_coords coords = Inr hand) \<and> (\<exists>fist. is_fist coords = Inr fist))
   \<and> (length short < 21 \<longrightarrow>
        get_hand_coords short = Inl IndexError
        \<and> (past_coords \<noteq> [] \<longrightarrow>
             translate_landmarks_to_keyboard_action self short past_coords = Inl IndexError
             \<and> translate_landmarks_to_mouse_action self short (Some past_coords) cursor
                 = Inl IndexError)
        \<and> is_fist short \<noteq> Inr True
        \<and> is_fist short =
             (if length short \<le> 8 then Inl IndexError
              else if coord_y (short ! 8) \<le> coord_y (short ! 6) then Inr False
              else if length short \<le> 12 then Inl IndexError
              else if coord_y (short ! 12) \<le> coord_y (short ! 10) then Inr False
              else if length short \<le> 16 then Inl IndexError
              else if coord_y (short ! 16) \<le> coord_y (short ! 14) then Inr False
              else Inl IndexError))"
proof (intro conjI impI)
  assume a: "past_coords = [] \<or> valid_skeleton coords \<and> valid_skeleton past_coords"
  show "\<exists>acts. translate_landmarks_to_keyboard_action self coords past_coords = Inr acts"
  proof (cases "past_coords = []")
    case True
    then show ?thesis by (simp add: translate_landmarks_to_keyboard_action_def)
  next
    case False
    with a show ?thesis by (simp add: keyboard_valid)
  qed
  show "\<exists>acts. translate_landmarks_to_mouse_action self coords (Some past_coords) cursor
                 = Inr acts"
  proof (cases "past_coords = []")
    case True
    then show ?thesis by (simp add: translate_landmarks_to_mouse_action_def)
  next
    case False
    with a show ?thesis by (simp add: mouse_valid)
  qed
next
  assume v: "valid_skeleton coords"
  then show "\<exists>hand. get_hand_coords coords = Inr hand"
    by (simp add: get_hand_coords_valid)
  from v show "\<exists>fist. is_fist coords = Inr fist"
    by (simp add: is_fist_valid)
next
  assume "length short < 21"
  then show "get_hand_coords short = Inl IndexError"
    by (rule get_hand_coords_short)
next
  assume "length short < 21" and "past_coords \<noteq> []"
  then show "translate_landmarks_to_keyboard_action self short past_coords = Inl IndexError"
    by (simp add: translate_landmarks_to_keyboard_action_def get_hand_coords_short)
next
  assume "length short < 21" and "past_coords \<noteq> []"
  then show "translate_landmarks_to_mouse_action self short (Some past_coords) cursor
               = Inl IndexError"
    by (simp add: translate_landmarks_to_mouse_action_def get_hand_coords_short)
next
  assume "length short < 21"
  then show "is_fist short \<noteq> Inr True"
    by (simp add: is_fist_short)
next
  assume "length short < 21"
  then show "is_fist short =
             (if length short \<le> 8 then Inl IndexError
              else if coord_y (short ! 8) \<le> coord_y (short ! 6) then Inr False
              else if length short \<le> 12 then Inl IndexError
              else if coord_y (short ! 12) \<le> coord_y (short ! 10) then Inr False
              else if length short \<le> 16 then Inl IndexError
              else if coord_y (short ! 16) \<le> coord_y (short ! 14) then Inr False
              else Inl IndexError)"
    by (rule is_fist_short)
qed

text \<open>
  An open hand after an open hand raises nothing; twenty points with the index, middle
  and ring fingers curled make \<open>is_fist\<close> and both translate functions raise.
\<close>

theorem index_accesses_in_bounds_witness:
  "valid_skeleton (hand_at (pt (1 / 2) (1 / 2) 0) (4 / 10) (4 / 10) (4 / 10) (4 / 10))
   \<and> valid_skeleton (hand_at (pt (4 / 10) (1 / 2) 0) (4 / 10) (4 / 10) (4 / 10) (4 / 10))
   \<and> is_fist (hand_at (pt (1 / 2) (1 / 2) 0) (4 / 10) (4 / 10) (4 / 10) (4 / 10)) = Inr False
   \<and> translate_landmarks_to_keyboard_action gui_translator
        (hand_at (pt (1 / 2) (1 / 2) 0) (4 / 10) (4 / 10) (4 / 10) (4 / 10))
        (hand_at (pt (4 / 10) (1 / 2) 0) (4 / 10) (4 / 10) (4 / 10) (4 / 10))
      = Inr []
   \<and> translate_landmarks_to_mouse_action gui_translator
        (hand_at (pt (1 / 2) (1 / 2) 0) (4 / 10) (4 / 10) (4 / 10) (4 / 10))
        (Some (hand_at (pt (4 / 10) (1 / 2) 0) (4 / 10) (4 / 10) (4 / 10) (4 / 10)))
        (100, 100)
      = Inr [Move 400 100]
   \<and> length (twenty_points (6 / 10) (6 / 10) (6 / 10)) < 21
   \<and> hand_at (pt (4 / 10) (1 / 2) 0) (4 / 10) (4 / 10) (4 / 10) (4 / 10) \<noteq> []
   \<and> get_hand_coords (twenty_points (6 / 10) (6 / 10) (6 / 10)) = Inl IndexError
   \<and> is_fist (twenty_points (6 / 10) (6 / 10) (6 / 10)) = Inl IndexError
   \<and> translate_landmarks_to_keyboard_action gui_translator
        (twenty_points (6 / 10) (6 / 10) (6 / 10))
        (hand_at (pt (4 / 10) (1 / 2) 0) (4 / 10) (4 / 10) (4 / 10) (4 / 10))
      = Inl IndexError
   \<and> translate_landmarks_to_mouse_action gui_translator
        (twenty_points (6 / 10) (6 / 10) (6 / 10))
        (Some (hand_at (pt (4 / 10) (1 / 2) 0) (4 / 10) (4 / 10) (4 / 10) (4 / 10)))
        (100, 100)
      = Inl IndexError"
  using index_accesses_in_bounds
          [where coords = "hand_at (pt (1 / 2) (1 / 2) 0) (4 / 10) (4 / 10) (4 / 10) (4 / 10)"
             and past_coords =
               "hand_at (pt (4 / 10) (1 / 2) 0) (4 / 10) (4 / 10) (4 / 10) (4 / 10)"
             and self = gui_translator and cursor = "(100, 100)"
             and short = "twenty_points (6 / 10) (6 / 10) (6 / 10)"]
  by (simp add: twenty_points_length twenty_points_nth keyboard_valid mouse_valid
      hand_at_valid hand_at_nonempty hand_at_nth hand_at_curled is_fist_valid tip_distance
      pt_sel is_shaking_def first_released_key_def finger_keys_def falling_edge_def
      gui_translator_def)

section \<open>Decisions of the keyboard channel\<close>

lemma direction_key_horizontal:
  "direction_key p prev = (if coord_x p \<le> coord_x prev then ''shift+tab'' else ''tab'')"
  by (simp add: direction_key_def)

text \<open>
  C2. With two skeletons of 21 points of which the current one is not a fist, the fingers
  are tried in the order index, middle, ring, pinkie; the first one with a falling edge
  (distance to the thumb above the threshold now, at most the threshold before) has its
  key sent, and that is the only call made. Without such a finger no key is sent. In
  every case at most one key is sent.
\<close>

theorem finger_release_priority:
  assumes "valid_skeleton coords" and "valid_skeleton past_coords"
    and "is_fist coords = Inr False"
  shows "\<exists>acts. translate_landmarks_to_keyboard_action self coords past_coords = Inr acts
           \<and> (case first_released_key self coords past_coords of
                 Some key \<Rightarrow> acts = [Send key]
               | None \<Rightarrow> sends acts = [])
           \<and> length (sends acts) \<le> 1"
proof -
  from assms(1,3) have "\<not> all_four_curled coords"
    by (simp add: is_fist_valid)
  then show ?thesis
    by (simp add: keyboard_valid [OF assms(1,2)] split: option.split)
qed

text \<open>
  Scenario C: the index-thumb distance was 0.05 and is now 0.10 with threshold 0.06 on an
  open hand, and the middle finger is released in the same call: only space is sent.
\<close>

theorem finger_release_priority_witness:
  "valid_skeleton (hand_at (pt (1 / 2) (1 / 2) 0) (4 / 10) (4 / 10) (4 / 10) (4 / 10))
   \<and> valid_skeleton (hand_at (pt (1 / 2) (1 / 2) 0) (45 / 100) (45 / 100) (4 / 10) (4 / 10))
   \<and> is_fist (hand_at (pt (1 / 2) (1 / 2) 0) (4 / 10) (4 / 10) (4 / 10) (4 / 10)) = Inr False
   \<and> translate_landmarks_to_keyboard_action gui_translator
        (hand_at (pt (1 / 2) (1 / 2) 0) (4 / 10) (4 / 10) (4 / 10) (4 / 10))
        (hand_at (pt (1 / 2) (1 / 2) 0) (45 / 100) (45 / 100) (4 / 10) (4 / 10))
      = Inr [Send ''space'']"
  using finger_release_priority
          [where coords = "hand_at (pt (1 / 2) (1 / 2) 0) (4 / 10) (4 / 10) (4 / 10) (4 / 10)"
             and past_coords =
               "hand_at (pt (1 / 2) (1 / 2) 0) (45 / 100) (45 / 100) (4 / 10) (4 / 10)"
             and self = gui_translator]
  by (simp add: hand_at_valid hand_at_nth hand_at_curled is_fist_valid tip_distance
      first_released_key_def finger_keys_def falling_edge_def gui_translator_def)

text \<open>
  C5. With two skeletons of 21 points, alt+tab is pressed exactly when the current
  skeleton is a fist and the previous one is not, and then exactly once; alt+tab is
  released exactly when the current skeleton is not a fist, the previous one is, and none
  of the four finger keys was sent in the call.
\<close>

theorem alt_tab_latch:
  assumes "valid_skeleton coords" and "valid_skeleton past_coords"
  shows "\<exists>acts. translate_landmarks_to_keyboard_action self coords past_coords = Inr acts
           \<and> count_list acts (Press ''alt+tab'') =
               (if is_fist coords = Inr True \<and> is_fist past_coords = Inr False then 1 else 0)
           \<and> (Release ''alt+tab'' \<in> set acts \<longleftrightarrow>
                is_fist coords = Inr False \<and> is_fist past_coords = Inr True
                \<and> set (sends acts) \<inter> {''space'', ''enter'', ''backspace'', ''escape''} = {})"
proof -
  have keys: "key \<in> {''space'', ''enter'', ''backspace'', ''escape''}"
    if "first_released_key self coords past_coords = Some key" for key
    using that
    by (auto simp: first_released_key_def finger_keys_def split: if_splits)
  show ?thesis
    using keys
    by (auto simp: keyboard_valid [OF assms] is_fist_valid [OF assms(1)]
        is_fist_valid [OF assms(2)] split: option.split)
qed

text \<open>Scenario A: the current skeleton is a fist, the previous one an open hand.\<close>

theorem alt_tab_latch_witness:
  "valid_skeleton (hand_at (pt (1 / 2) (1 / 2) 0) (6 / 10) (6 / 10) (6 / 10) (6 / 10))
   \<and> valid_skeleton (hand_at (pt (1 / 2) (1 / 2) 0) (4 / 10) (4 / 10) (4 / 10) (4 / 10))
   \<and> translate_landmarks_to_keyboard_action gui_translator
        (hand_at (pt (1 / 2) (1 / 2) 0) (6 / 10) (6 / 10) (6 / 10) (6 / 10))
        (hand_at (pt (1 / 2) (1 / 2) 0) (4 / 10) (4 / 10) (4 / 10) (4 / 10))
      = Inr [Press ''alt+tab'']
   \<and> translate_landmarks_to_keyboard_action gui_translator
        (hand_at (pt (1 / 2) (1 / 2) 0) (4 / 10) (4 / 10) (4 / 10) (4 / 10))
        (hand_at (pt (1 / 2) (1 / 2) 0) (6 / 10) (6 / 10) (6 / 10) (6 / 10))
      = Inr [Release ''alt+tab'']"
  using alt_tab_latch
          [where coords = "hand_at (pt (1 / 2) (1 / 2) 0) (6 / 10) (6 / 10) (6 / 10) (6 / 10)"
             and past_coords =
               "hand_at (pt (1 / 2) (1 / 2) 0) (4 / 10) (4 / 10) (4 / 10) (4 / 10)"
             and self = gui_translator]
        alt_tab_latch
          [where coords = "hand_at (pt (1 / 2) (1 / 2) 0) (4 / 10) (4 / 10) (4 / 10) (4 / 10)"
             and past_coords =
               "hand_at (pt (1 / 2) (1 / 2) 0) (6 / 10) (6 / 10) (6 / 10) (6 / 10)"
             and self = gui_translator]
  by (simp add: keyboard_valid hand_at_valid hand_at_nth hand_at_curled is_fist_valid
      tip_distance pt_sel is_shaking_def first_released_key_def finger_keys_def
      falling_edge_def gui_translator_def)

text \<open>
  C6. With two skeletons of 21 points, a current fist and a palm that is not shaking
  under the shake sensitivity plus 0.008, exactly one key is sent and it ends the call
  (only the press of alt+tab may precede it). The key is the one the priority rule
  x not larger, x larger, y not larger, otherwise picks; as one of the first two tests
  always holds, it is shift+tab when the palm's x did not grow and tab otherwise, and
  the two vertical keys are never picked.
\<close>

theorem fist_navigation_key:
  assumes "valid_skeleton coords" and "valid_skeleton past_coords"
    and "is_fist coords = Inr True"
    and "\<not> is_shaking (coords ! 0) (past_coords ! 0) (shake_sensitivity self + 8 / 1000)"
  shows "translate_landmarks_to_keyboard_action self coords past_coords =
           Inr ((if is_fist past_coords = Inr False then [Press ''alt+tab''] else []) @
                [Send (direction_key (coords ! 0) (past_coords ! 0))])
         \<and> (\<exists>acts. translate_landmarks_to_keyboard_action self coords past_coords = Inr acts
               \<and> sends acts = [direction_key (coords ! 0) (past_coords ! 0)])
         \<and> direction_key (coords ! 0) (past_coords ! 0) =
             (if coord_x (coords ! 0) \<le> coord_x (past_coords ! 0)
              then ''shift+tab'' else ''tab'')
         \<and> direction_key (coords ! 0) (past_coords ! 0) \<in> {''shift+tab'', ''tab''}"
proof -
  from assms(1,3) have fist: "all_four_curled coords"
    by (simp add: is_fist_valid)
  have eq: "translate_landmarks_to_keyboard_action self coords past_coords =
           Inr ((if is_fist past_coords = Inr False then [Press ''alt+tab''] else []) @
                [Send (direction_key (coords ! 0) (past_coords ! 0))])"
    using fist assms(4)
    by (simp add: keyboard_valid [OF assms(1,2)] is_fist_valid [OF assms(2)]
        direction_key_horizontal)
  then have "\<exists>acts. translate_landmarks_to_keyboard_action self coords past_coords = Inr acts
               \<and> sends acts = [direction_key (coords ! 0) (past_coords ! 0)]"
    by simp
  with eq show ?thesis
    by (simp add: direction_key_horizontal)
qed

text \<open>Scenario B: fist in both skeletons, the palm's x moved from 0.5 to 0.3.\<close>

theorem fist_navigation_key_witness:
  "valid_skeleton (hand_at (pt (3 / 10) (1 / 2) 0) (6 / 10) (6 / 10) (6 / 10) (6 / 10))
   \<and> valid_skeleton (hand_at (pt (1 / 2) (1 / 2) 0) (6 / 10) (6 / 10) (6 / 10) (6 / 10))
   \<and> is_fist (hand_at (pt (3 / 10) (1 / 2) 0) (6 / 10) (6 / 10) (6 / 10) (6 / 10)) = Inr True
   \<and> \<not> is_shaking (pt (3 / 10) (1 / 2) 0) (pt (1 / 2) (1 / 2) 0)
          (shake_sensitivity gui_translator + 8 / 1000)
   \<and> translate_landmarks_to_keyboard_action gui_translator
        (hand_at (pt (3 / 10) (1 / 2) 0) (6 / 10) (6 / 10) (6 / 10) (6 / 10))
        (hand_at (pt (1 / 2) (1 / 2) 0) (6 / 10) (6 / 10) (6 / 10) (6 / 10))
      = Inr [Send ''shift+tab'']"
  using fist_navigation_key
          [where coords = "hand_at (pt (3 / 10) (1 / 2) 0) (6 / 10) (6 / 10) (6 / 10) (6 / 10)"
             and past_coords =
               "hand_at (pt (1 / 2) (1 / 2) 0) (6 / 10) (6 / 10) (6 / 10) (6 / 10)"
             and self = gui_translator]
  by (simp add: hand_at_valid hand_at_nth hand_at_curled is_fist_valid pt_sel
      is_shaking_def direction_key_def gui_translator_def)

text \<open>
  C1, as stated, fails: a fist can send a finger key. Both skeletons are fists with the
  palm at rest (so the palm counts as shaking and the fist block does not return), and
  the index fingertip moves from 0.05 to 0.10 away from the thumb: space is sent.
\<close>

theorem fist_at_rest_sends_space:
  "is_fist (hand_at (pt (1 / 2) (1 / 2) 0) (6 / 10) (6 / 10) (6 / 10) (6 / 10)) = Inr True
   \<and> hand_at (pt (1 / 2) (1 / 2) 0) (55 / 100) (6 / 10) (6 / 10) (6 / 10) \<noteq> []
   \<and> translate_landmarks_to_keyboard_action gui_translator
        (hand_at (pt (1 / 2) (1 / 2) 0) (6 / 10) (6 / 10) (6 / 10) (6 / 10))
        (hand_at (pt (1 / 2) (1 / 2) 0) (55 / 100) (6 / 10) (6 / 10) (6 / 10))
      = Inr [Send ''space'']"
  by (simp add: keyboard_valid hand_at_valid hand_at_nonempty hand_at_nth hand_at_curled
      is_fist_valid tip_distance pt_sel is_shaking_def first_released_key_def
      finger_keys_def falling_edge_def gui_translator_def)

text \<open>
  C1, amended. With two skeletons of 21 points, a current fist and a palm that is not
  shaking under the shake sensitivity plus 0.008, none of the keys space, enter,
  backspace and escape is sent.
\<close>

theorem moving_fist_sends_no_finger_key:
  assumes "valid_skeleton coords" and "valid_skeleton past_coords"
    and "is_fist coords = Inr True"
    and "\<not> is_shaking (coords ! 0) (past_coords ! 0) (shake_sensitivity self + 8 / 1000)"
  shows "\<exists>acts. translate_landmarks_to_keyboard_action self coords past_coords = Inr acts
           \<and> set (sends acts) \<inter> {''space'', ''enter'', ''backspace'', ''escape''} = {}"
proof -
  from assms(1,3) have "all_four_curled coords"
    by (simp add: is_fist_valid)
  with assms(4) show ?thesis
    by (simp add: keyboard_valid [OF assms(1,2)])
qed

text \<open>
  The fists of the counterexample with the palm's x moved from 0.5 to 0.3: the index
  finger has the same falling edge, and only shift+tab is sent.
\<close>

theorem moving_fist_sends_no_finger_key_witness:
  "valid_skeleton (hand_at (pt (3 / 10) (1 / 2) 0) (6 / 10) (6 / 10) (6 / 10) (6 / 10))
   \<and> valid_skeleton (hand_at (pt (1 / 2) (1 / 2) 0) (55 / 100) (6 / 10) (6 / 10) (6 / 10))
   \<and> is_fist (hand_at (pt (3 / 10) (1 / 2) 0) (6 / 10) (6 / 10) (6 / 10) (6 / 10)) = Inr True
   \<and> falling_edge gui_translator
        (hand_at (pt (3 / 10) (1 / 2) 0) (6 / 10) (6 / 10) (6 / 10) (6 / 10))
        (hand_at (pt (1 / 2) (1 / 2) 0) (55 / 100) (6 / 10) (6 / 10) (6 / 10)) 8
   \<and> translate_landmarks_to_keyboard_action gui_translator
        (hand_at (pt (3 / 10) (1 / 2) 0) (6 / 10) (6 / 10) (6 / 10) (6 / 10))
        (hand_at (pt (1 / 2) (1 / 2) 0) (55 / 100) (6 / 10) (6 / 10) (6 / 10))
      = Inr [Send ''shift+tab'']"
  using moving_fist_sends_no_finger_key
          [where coords = "hand_at (pt (3 / 10) (1 / 2) 0) (6 / 10) (6 / 10) (6 / 10) (6 / 10)"
             and past_coords =
               "hand_at (pt (1 / 2) (1 / 2) 0) (55 / 100) (6 / 10) (6 / 10) (6 / 10)"
             and self = gui_translator]
  by (simp add: keyboard_valid hand_at_valid hand_at_nth hand_at_curled is_fist_valid
      tip_distance pt_sel is_shaking_def falling_edge_def gui_translator_def)

end
